theory Spec2Isabelle
  imports Main
begin

section \<open>The script \<^verbatim>\<open>examples/python/conditional_loop.py\<close>\<close>

text \<open>
  The script is one function:
  \<^verbatim>\<open>
  def main():
      total = 0
      for i in range(10):
          value = i * 2
          total += value
          print(f"i={i}, value={value}, total={total}")

      print(f"Final total: {total}")
      return total
  \<close>
  Python integers are unbounded, so they are \<open>int\<close>. The console is a text that
  \<open>print\<close> extends; the local variables of \<open>main\<close> and the console form the state
  that the statements pass along. \<open>main\<close> is the function on this append-only
  console; \<open>main_on\<close> is the same function on a console whose write can raise.
\<close>

subsection \<open>The built-ins the script calls\<close>

text \<open>
  An f-string field \<open>{n}\<close> of an integer is \<open>str(n)\<close>: the decimal digits, most
  significant first, after a minus sign when \<open>n\<close> is negative.
\<close>

definition digit_char :: "nat \<Rightarrow> char" where
  "digit_char d = ''0123456789'' ! d"

fun digits :: "nat \<Rightarrow> string" where
  "digits n = (if n < 10 then [digit_char n] else digits (n div 10) @ [digit_char (n mod 10)])"

declare digits.simps [simp del]

definition str_int :: "int \<Rightarrow> string" where
  "str_int n = (if n < 0 then CHR ''-'' # digits (nat (- n)) else digits (nat n))"

text \<open>\<open>print(s)\<close> writes \<open>s\<close> and then the line end \<open>\n\<close> to the console.\<close>

definition newline :: char where
  "newline = CHR 0x0A"

definition print :: "string \<Rightarrow> string \<Rightarrow> string" where
  "print s out = out @ s @ [newline]"

text \<open>
  \<open>for i in range(stop)\<close> takes the integers from \<open>0\<close> in steps of one while
  they are below \<open>stop\<close>, and runs the body on each. \<open>for_range i stop body s\<close>
  is the loop from the moment its iterator stands at \<open>i\<close>.
\<close>

function for_range :: "int \<Rightarrow> int \<Rightarrow> (int \<Rightarrow> 's \<Rightarrow> 's) \<Rightarrow> 's \<Rightarrow> 's" where
  "for_range i stop body s =
     (if i < stop then for_range (i + 1) stop body (body i s) else s)"
  by pat_completeness auto
termination
  by (relation "measure (\<lambda>(i, stop, body, s). nat (stop - i))") auto

declare for_range.simps [simp del]

subsection \<open>The state and the function\<close>

text \<open>
  The local variables of \<open>main\<close> and the console. \<open>total\<close> is assigned by the first
  statement; \<open>i\<close> and \<open>value\<close> have no value until the first iteration assigns
  them (\<open>None\<close>).
\<close>

record state =
  var_total :: int
  var_i :: "int option"
  var_value :: "int option"
  stdout :: string

text \<open>Line 5, \<open>total = 0\<close>, on a console that holds \<open>out0\<close> already.\<close>

definition initial :: "string \<Rightarrow> state" where
  "initial out0 = \<lparr>var_total = 0, var_i = None, var_value = None, stdout = out0\<rparr>"

text \<open>
  The two f-strings: line 9, \<open>f"i={i}, value={value}, total={total}"\<close>, and
  line 11, \<open>f"Final total: {total}"\<close>.
\<close>

definition f_iteration :: "int \<Rightarrow> int \<Rightarrow> int \<Rightarrow> string" where
  "f_iteration i v t = ''i='' @ str_int i @ '', value='' @ str_int v @ '', total='' @ str_int t"

definition f_final :: "int \<Rightarrow> string" where
  "f_final t = ''Final total: '' @ str_int t"

text \<open>Lines 7 to 9, the body of the loop at index \<open>i\<close>.\<close>

definition loop_body :: "int \<Rightarrow> state \<Rightarrow> state" where
  "loop_body i s =
     (let v = i * 2;
          t = var_total s + v
      in s\<lparr>var_i := Some i, var_value := Some v, var_total := t,
            stdout := print (f_iteration i v t) (stdout s)\<rparr>)"

text \<open>Lines 11 and 12: the summary line, and the value returned with the console.\<close>

definition finish :: "state \<Rightarrow> int \<times> string" where
  "finish s = (var_total s, print (f_final (var_total s)) (stdout s))"

definition main :: "string \<Rightarrow> int \<times> string" where
  "main out0 = finish (for_range 0 10 loop_body (initial out0))"

subsection \<open>Reading the console\<close>

text \<open>
  What a call wrote is the console after it without the text it held before.
  \<open>splitlines\<close> cuts a text at each line end, as Python's \<open>str.splitlines\<close> does
  for \<open>\n\<close>; a last line with no line end is kept. \<open>output_lines out0\<close> are the
  lines that one call of \<open>main\<close> adds to a console holding \<open>out0\<close>.
\<close>

definition written :: "string \<Rightarrow> string \<Rightarrow> string" where
  "written before after = drop (length before) after"

fun splitlines_from :: "string \<Rightarrow> string \<Rightarrow> string list" where
  "splitlines_from cur [] = (if cur = [] then [] else [cur])"
| "splitlines_from cur (c # cs) =
     (if c = newline then cur # splitlines_from [] cs else splitlines_from (cur @ [c]) cs)"

definition splitlines :: "string \<Rightarrow> string list" where
  "splitlines text = splitlines_from [] text"

definition output_lines :: "string \<Rightarrow> string list" where
  "output_lines out0 = splitlines (written out0 (snd (main out0)))"

subsection \<open>A console that can refuse a write\<close>

text \<open>
  \<open>print\<close> hands its text, and then the line end, to the \<open>write\<close> method of the
  object bound to \<open>sys.stdout\<close>. That write can raise: \<open>ValueError\<close> on a closed
  file, \<open>OSError\<close> when the system refuses it. The script catches nothing, so the
  exception leaves \<open>print\<close>, the loop and \<open>main\<close>. Here \<open>wr\<close> is the write
  method and \<open>c\<close> the state of the console; an exception is the value \<open>Inl\<close>.
\<close>

datatype py_error = ValueError | OSError














section \<open>The loop\<close>

text \<open>
  The last iteration of a loop can be peeled off, a loop can be cut at any index in
  between, and the loop of the script is its body at 0, 1, ..., 9 in turn.
\<close>

lemma for_range_last:
  "i \<le> n \<Longrightarrow> for_range i (n + 1) body s = body n (for_range i n body s)"
proof (induction i n body s rule: for_range.induct)
  case (1 i stop body s)
  show ?case
  proof (cases "i < stop")
    case True
    with "1.IH" have "for_range (i + 1) (stop + 1) body (body i s)
        = body stop (for_range (i + 1) stop body (body i s))"
      by simp
    with True show ?thesis
      by (simp add: for_range.simps [of i])
  next
    case False
    with "1.prems" have "i = stop" by simp
    then show ?thesis
      by (simp add: for_range.simps [of stop] for_range.simps [of "stop + 1"])
  qed
qed

lemma for_range_split:
  "i \<le> m \<Longrightarrow> m \<le> n \<Longrightarrow> for_range i n body s = for_range m n body (for_range i m body s)"
proof (induction i n body s rule: for_range.induct)
  case (1 i stop body s)
  show ?case
  proof (cases "i < m")
    case True
    with "1.prems" have "i < stop" by simp
    with True "1.IH" "1.prems" have "for_range (i + 1) stop body (body i s)
        = for_range m stop body (for_range (i + 1) m body (body i s))"
      by simp
    with True \<open>i < stop\<close> show ?thesis
      by (simp add: for_range.simps [of i])
  next
    case False
    with "1.prems" have "i = m" by simp
    then show ?thesis
      by (simp add: for_range.simps [of m m])
  qed
qed

lemma for_range_unroll_10:
  "for_range 0 10 body s
    = body 9 (body 8 (body 7 (body 6 (body 5 (body 4 (body 3 (body 2 (body 1 (body 0 s)))))))))"
  by (simp add: for_range.simps)

section \<open>The state after each iteration\<close>

lemma loop_body_fields:
  "var_total (loop_body i s) = var_total s + i * 2"
  "var_i (loop_body i s) = Some i"
  "var_value (loop_body i s) = Some (i * 2)"
  "stdout (loop_body i s) = stdout s @ f_iteration i (i * 2) (var_total s + i * 2) @ [newline]"
  by (simp_all add: loop_body_def Let_def print_def)

lemma for_range_step:
  "0 \<le> k \<Longrightarrow> for_range 0 (k + 1) loop_body s = loop_body k (for_range 0 k loop_body s)"
  by (simp add: for_range_last)

lemma for_range_total:
  "0 \<le> n \<Longrightarrow> var_total (for_range 0 n loop_body s) = var_total s + n * (n - 1)"
proof (induction n rule: int_ge_induct)
  case base
  show ?case by (simp add: for_range.simps)
next
  case (step n)
  have "var_total (loop_body n t) = var_total t + n * 2" for t
    by (simp add: loop_body_def Let_def)
  with step have "var_total (for_range 0 (n + 1) loop_body s)
      = var_total s + n * (n - 1) + n * 2"
    by (simp add: for_range_last)
  then show ?case
    by (simp add: algebra_simps)
qed

lemma for_range_total_initial:
  "0 \<le> n \<Longrightarrow> var_total (for_range 0 n loop_body (initial out0)) = n * (n - 1)"
  using for_range_total [of n "initial out0"] by (simp add: initial_def)

lemma for_range_stdout:
  "0 \<le> n \<Longrightarrow> stdout (for_range 0 n loop_body s)
     = stdout s @ concat (map (\<lambda>k. f_iteration k (k * 2) (var_total s + k * (k + 1)) @ [newline]) [0..n - 1])"
proof (induction n rule: int_ge_induct)
  case base
  show ?case by (simp add: for_range.simps)
next
  case (step n)
  have tot: "var_total s + n * (n - 1) + n * 2 = var_total s + n * (n + 1)"
    by (simp add: algebra_simps)
  have ups: "[0..n + 1 - 1] = [0..n - 1] @ [n]"
    using step.hyps upto_rec2 [of 0 n] by simp
  have "stdout (for_range 0 (n + 1) loop_body s) = stdout (for_range 0 n loop_body s)
      @ f_iteration n (n * 2) (var_total s + n * (n - 1) + n * 2) @ [newline]"
    using step.hyps by (simp add: for_range_last loop_body_fields for_range_total)
  then show ?case
    unfolding tot ups using step.IH by simp
qed

lemma sum_twice_upto: "0 \<le> k \<Longrightarrow> (\<Sum>i = 0..k. 2 * i) = k * (k + 1)" for k :: int
proof (induction k rule: int_ge_induct)
  case base
  show ?case by simp
next
  case (step k)
  have "{0..k + 1} = insert (k + 1) {0..k}"
    using step.hyps by auto
  with step show ?case
    by (simp add: algebra_simps)
qed

lemma index_cases:
  "0 \<le> k \<Longrightarrow> k \<le> 9 \<Longrightarrow>
    k = 0 \<or> k = 1 \<or> k = 2 \<or> k = 3 \<or> k = 4 \<or> k = 5 \<or> k = 6 \<or> k = 7 \<or> k = 8 \<or> k = 9"
  for k :: int
  by arith

section \<open>Decimal rendering\<close>

text \<open>
  The renderings the run needs, and that \<open>str\<close> of an integer determines the
  integer: the digits give the number back, and no digit is a minus sign.
\<close>

lemma str_int_values:
  "str_int 0 = ''0''" "str_int 1 = ''1''" "str_int 2 = ''2''" "str_int 3 = ''3''"
  "str_int 4 = ''4''" "str_int 5 = ''5''" "str_int 6 = ''6''" "str_int 7 = ''7''"
  "str_int 8 = ''8''" "str_int 9 = ''9''" "str_int 10 = ''10''" "str_int 12 = ''12''"
  "str_int 14 = ''14''" "str_int 16 = ''16''" "str_int 18 = ''18''" "str_int 20 = ''20''"
  "str_int 30 = ''30''" "str_int 42 = ''42''" "str_int 56 = ''56''" "str_int 72 = ''72''"
  "str_int 90 = ''90''"
  by (simp_all add: str_int_def digits.simps digit_char_def)

lemma digit_char_code: "d < 10 \<Longrightarrow> of_char (digit_char d) = 48 + d" for d :: nat
proof -
  assume "d < 10"
  then have "d = 0 \<or> d = 1 \<or> d = 2 \<or> d = 3 \<or> d = 4 \<or> d = 5 \<or> d = 6 \<or> d = 7 \<or> d = 8 \<or> d = 9"
    by arith
  then show ?thesis
    by (elim disjE) (simp_all add: digit_char_def)
qed

lemma digits_value:
  "foldl (\<lambda>a c. 10 * a + (of_char c - 48)) 0 (digits n) = n"
proof (induction n rule: digits.induct)
  case (1 n)
  show ?case
  proof (cases "n < 10")
    case True
    then show ?thesis
      by (simp add: digits.simps [of n] digit_char_code)
  next
    case False
    with "1.IH" show ?thesis
      by (simp add: digits.simps [of n] digit_char_code)
  qed
qed

lemma digits_inj: "digits m = digits n \<Longrightarrow> m = n"
proof -
  assume "digits m = digits n"
  then have "foldl (\<lambda>a c. 10 * a + (of_char c - 48)) (0::nat) (digits m)
      = foldl (\<lambda>a c. 10 * a + (of_char c - 48)) 0 (digits n)"
    by (rule arg_cong)
  then show "m = n"
    by (simp only: digits_value)
qed

lemma digit_char_not_minus: "d < 10 \<Longrightarrow> digit_char d \<noteq> CHR ''-''" for d :: nat
proof
  assume "d < 10" and "digit_char d = CHR ''-''"
  then have "of_char (CHR ''-'') = 48 + d"
    using digit_char_code [of d] by simp
  then show False by simp
qed

lemma digits_no_minus: "CHR ''-'' \<notin> set (digits n)"
proof (induction n rule: digits.induct)
  case (1 n)
  have tail_digit: "digit_char (n mod 10) \<noteq> CHR ''-''"
    by (rule digit_char_not_minus) simp
  show ?case
  proof (cases "n < 10")
    case True
    then have "digits n = [digit_char n]"
      by (simp add: digits.simps [of n])
    with True digit_char_not_minus [of n] show ?thesis
      by simp
  next
    case False
    then have "digits n = digits (n div 10) @ [digit_char (n mod 10)]"
      by (simp add: digits.simps [of n])
    with False "1.IH" tail_digit show ?thesis
      by simp
  qed
qed

lemma str_int_inj: "str_int a = str_int b \<Longrightarrow> a = b"
proof -
  assume eq: "str_int a = str_int b"
  consider "a < 0" "b < 0" | "0 \<le> a" "0 \<le> b" | "a < 0" "0 \<le> b" | "0 \<le> a" "b < 0"
    by linarith
  then show ?thesis
  proof cases
    case 1
    with eq have "digits (nat (- a)) = digits (nat (- b))"
      by (simp add: str_int_def)
    then have "nat (- a) = nat (- b)"
      by (rule digits_inj)
    with 1 show ?thesis by simp
  next
    case 2
    with eq have "digits (nat a) = digits (nat b)"
      by (simp add: str_int_def)
    then have "nat a = nat b"
      by (rule digits_inj)
    with 2 show ?thesis by simp
  next
    case 3
    with eq have "digits (nat b) = CHR ''-'' # digits (nat (- a))"
      by (simp add: str_int_def)
    then have "CHR ''-'' \<in> set (digits (nat b))"
      by simp
    then show ?thesis by (simp add: digits_no_minus)
  next
    case 4
    with eq have "digits (nat a) = CHR ''-'' # digits (nat (- b))"
      by (simp add: str_int_def)
    then have "CHR ''-'' \<in> set (digits (nat a))"
      by simp
    then show ?thesis by (simp add: digits_no_minus)
  qed
qed

section \<open>The console after a call\<close>

lemma main_console:
  "snd (main out0) = out0 @ concat (map (\<lambda>l. l @ [newline])
     (map (\<lambda>k. f_iteration k (k * 2) (k * (k + 1))) [0..9] @ [f_final 90]))"
proof -
  have "stdout (for_range 0 10 loop_body (initial out0))
      = out0 @ concat (map (\<lambda>k. f_iteration k (k * 2) (k * (k + 1)) @ [newline]) [0..9])"
    using for_range_stdout [of 10 "initial out0"] by (simp add: initial_def)
  moreover have "var_total (for_range 0 10 loop_body (initial out0)) = 90"
    using for_range_total [of 10 "initial out0"] by (simp add: initial_def)
  ultimately show ?thesis
    by (simp add: main_def finish_def print_def comp_def)
qed

lemma upto_0_9: "[0..9] = [0, 1, 2, 3, 4, 5, 6, 7, 8, 9 :: int]"
  by code_simp

lemma main_console_text:
  "snd (main out0) = out0 @
     ''i=0, value=0, total=0'' @ [newline] @ ''i=1, value=2, total=2'' @ [newline] @
     ''i=2, value=4, total=6'' @ [newline] @ ''i=3, value=6, total=12'' @ [newline] @
     ''i=4, value=8, total=20'' @ [newline] @ ''i=5, value=10, total=30'' @ [newline] @
     ''i=6, value=12, total=42'' @ [newline] @ ''i=7, value=14, total=56'' @ [newline] @
     ''i=8, value=16, total=72'' @ [newline] @ ''i=9, value=18, total=90'' @ [newline] @
     ''Final total: 90'' @ [newline]"
  by (simp add: main_console upto_0_9 f_iteration_def f_final_def str_int_values)

lemma written_append: "written before (before @ w) = w"
  by (simp add: written_def)

lemma main_written:
  "written out0 (snd (main out0)) =
     ''i=0, value=0, total=0'' @ [newline] @ ''i=1, value=2, total=2'' @ [newline] @
     ''i=2, value=4, total=6'' @ [newline] @ ''i=3, value=6, total=12'' @ [newline] @
     ''i=4, value=8, total=20'' @ [newline] @ ''i=5, value=10, total=30'' @ [newline] @
     ''i=6, value=12, total=42'' @ [newline] @ ''i=7, value=14, total=56'' @ [newline] @
     ''i=8, value=16, total=72'' @ [newline] @ ''i=9, value=18, total=90'' @ [newline] @
     ''Final total: 90'' @ [newline]"
  unfolding main_console_text by (rule written_append)

lemma output_lines_eq:
  "output_lines out0 =
    [''i=0, value=0, total=0'', ''i=1, value=2, total=2'', ''i=2, value=4, total=6'',
     ''i=3, value=6, total=12'', ''i=4, value=8, total=20'', ''i=5, value=10, total=30'',
     ''i=6, value=12, total=42'', ''i=7, value=14, total=56'', ''i=8, value=16, total=72'',
     ''i=9, value=18, total=90'', ''Final total: 90'']"
  by (simp add: output_lines_def main_written splitlines_def newline_def)

lemma output_line_at:
  assumes "0 \<le> k" and "k \<le> 9"
  shows "output_lines out0 ! nat k = f_iteration k (2 * k) (k * (k + 1))"
  using index_cases [OF assms]
  by (elim disjE) (simp_all add: output_lines_eq f_iteration_def str_int_values)

lemma main_fst: "fst (main out0) = 90"
  using for_range_total_initial [of 10 out0] by (simp add: main_def finish_def)

section \<open>The run on a console that can refuse a write\<close>




















section \<open>The properties of the script\<close>

text \<open>
  In each statement \<open>out0\<close> is the text the console holds when \<open>main\<close> is
  called; \<open>main\<close> itself takes no argument.
\<close>

text \<open>
  C1. \<open>main\<close> returns the integer 90 on every call: when the loop over the
  indices 0 to 9 is done, \<open>total\<close> is 90, and that is the value returned.
\<close>

theorem main_returns_90:
  "fst (main out0) = 90 \<and> var_total (for_range 0 10 loop_body (initial out0)) = 90"
  using for_range_total_initial [of 10 out0] by (simp add: main_fst)

text \<open>
  C2. The invariant of the accumulator. For \<open>0 \<le> k \<le> 9\<close>, when the body has run
  on the indices \<open>0..k\<close>, \<open>total\<close> is the sum of \<open>2 * i\<close> for \<open>i\<close> in \<open>0..k\<close>,
  which is \<open>k * (k + 1)\<close>; the run of \<open>main\<close> passes through that state (the rest
  of its loop starts from it), and after \<open>k = 9\<close> the total is 90.
\<close>

theorem total_invariant:
  assumes "0 \<le> k" and "k \<le> 9"
  shows "var_total (for_range 0 (k + 1) loop_body (initial out0)) = (\<Sum>i = 0..k. 2 * i)
    \<and> (\<Sum>i = 0..k. 2 * i) = k * (k + 1)
    \<and> for_range 0 10 loop_body (initial out0)
        = for_range (k + 1) 10 loop_body (for_range 0 (k + 1) loop_body (initial out0))
    \<and> var_total (for_range 0 (9 + 1) loop_body (initial out0)) = 90"
proof -
  have "var_total (for_range 0 (k + 1) loop_body (initial out0)) = k * (k + 1)"
    using assms for_range_total_initial [of "k + 1" out0] by (simp add: algebra_simps)
  moreover have "for_range 0 10 loop_body (initial out0)
        = for_range (k + 1) 10 loop_body (for_range 0 (k + 1) loop_body (initial out0))"
    using assms by (intro for_range_split) simp_all
  moreover have "var_total (for_range 0 (9 + 1) loop_body (initial out0)) = 90"
    using for_range_total_initial [of 10 out0] by simp
  ultimately show ?thesis
    using assms by (simp add: sum_twice_upto)
qed

theorem total_invariant_witness:
  "(0::int) \<le> 3 \<and> (3::int) \<le> 9
    \<and> var_total (for_range 0 (3 + 1) loop_body (initial [])) = (\<Sum>i = 0..3. 2 * i)
    \<and> (\<Sum>i = 0..3. 2 * i) = (12::int)
    \<and> var_total (for_range 0 (3 + 1) loop_body (initial [])) = 12"
  using total_invariant [of 3 "[]"] by simp

text \<open>
  C3. In the iteration at index \<open>k\<close>, for \<open>0 \<le> k \<le> 9\<close>, the value computed is
  \<open>2 * k\<close>: it is what the variable \<open>value\<close> holds after the iteration, what the
  line the iteration prints shows after \<open>value=\<close>, and what line \<open>k\<close> of the
  output of \<open>main\<close> shows.
\<close>

theorem value_is_twice_index:
  assumes "0 \<le> k" and "k \<le> 9"
  shows "var_i (for_range 0 (k + 1) loop_body (initial out0)) = Some k
    \<and> var_value (for_range 0 (k + 1) loop_body (initial out0)) = Some (2 * k)
    \<and> stdout (for_range 0 (k + 1) loop_body (initial out0))
        = stdout (for_range 0 k loop_body (initial out0))
          @ ''i='' @ str_int k @ '', value='' @ str_int (2 * k) @ '', total=''
          @ str_int (var_total (for_range 0 (k + 1) loop_body (initial out0))) @ [newline]
    \<and> output_lines out0 ! nat k
        = ''i='' @ str_int k @ '', value='' @ str_int (2 * k) @ '', total='' @ str_int (k * (k + 1))"
proof -
  have step: "for_range 0 (k + 1) loop_body (initial out0)
      = loop_body k (for_range 0 k loop_body (initial out0))"
    using assms by (simp add: for_range_step)
  have "output_lines out0 ! nat k
        = ''i='' @ str_int k @ '', value='' @ str_int (2 * k) @ '', total='' @ str_int (k * (k + 1))"
    using output_line_at [OF assms, of out0] by (simp add: f_iteration_def)
  then show ?thesis
    unfolding step by (simp add: loop_body_fields f_iteration_def mult.commute)
qed

theorem value_is_twice_index_witness:
  "(0::int) \<le> 7 \<and> (7::int) \<le> 9
    \<and> var_i (for_range 0 (7 + 1) loop_body (initial [])) = Some 7
    \<and> var_value (for_range 0 (7 + 1) loop_body (initial [])) = Some 14
    \<and> output_lines [] ! nat 7 = ''i=7, value=14, total=56''"
  using value_is_twice_index [of 7 "[]"] by (simp add: str_int_values)

text \<open>
  C4. A call of \<open>main\<close> adds exactly 11 lines to the console, each ended by a line
  end and none holding one inside: ten lines \<open>i={i}, value={value}, total={total}\<close>
  with the three integers in decimal, for \<open>i\<close> from 0 to 9, and then the one line
  \<open>Final total: {total}\<close>.
\<close>

theorem main_writes_eleven_lines:
  "snd (main out0) = out0 @ concat (map (\<lambda>l. l @ [newline]) (output_lines out0))
    \<and> length (output_lines out0) = 11
    \<and> output_lines out0 =
        [''i=0, value=0, total=0'', ''i=1, value=2, total=2'', ''i=2, value=4, total=6'',
         ''i=3, value=6, total=12'', ''i=4, value=8, total=20'', ''i=5, value=10, total=30'',
         ''i=6, value=12, total=42'', ''i=7, value=14, total=56'', ''i=8, value=16, total=72'',
         ''i=9, value=18, total=90'', ''Final total: 90'']
    \<and> take 10 (output_lines out0)
        = map (\<lambda>k. ''i='' @ str_int k @ '', value='' @ str_int (2 * k) @ '', total=''
                     @ str_int (k * (k + 1))) [0..9]
    \<and> drop 10 (output_lines out0) = [''Final total: '' @ str_int 90]
    \<and> newline \<notin> set (concat (output_lines out0))"
proof -
  have "snd (main out0) = out0 @ concat (map (\<lambda>l. l @ [newline]) (output_lines out0))"
    by (simp add: output_lines_eq main_console_text)
  moreover have "take 10 (output_lines out0)
        = map (\<lambda>k. ''i='' @ str_int k @ '', value='' @ str_int (2 * k) @ '', total=''
                     @ str_int (k * (k + 1))) [0..9]"
    by (simp add: output_lines_eq upto_0_9 str_int_values)
  moreover have "newline \<notin> set (concat (output_lines out0))"
    by (simp add: output_lines_eq newline_def)
  ultimately show ?thesis
    by (simp add: output_lines_eq str_int_values)
qed

text \<open>
  C5. The first line of the output is \<open>i=0, value=0, total=0\<close>, the last line of
  an iteration is \<open>i=9, value=18, total=90\<close>, and the summary line, the last of
  all, is \<open>Final total: 90\<close>.
\<close>

theorem distinguished_lines:
  "hd (output_lines out0) = ''i=0, value=0, total=0''
    \<and> output_lines out0 ! 9 = ''i=9, value=18, total=90''
    \<and> last (butlast (output_lines out0)) = ''i=9, value=18, total=90''
    \<and> output_lines out0 ! 10 = ''Final total: 90''
    \<and> last (output_lines out0) = ''Final total: 90''"
  by (simp add: output_lines_eq)

text \<open>
  C6. The integer that \<open>main\<close> returns is the total in the \<open>Final total:\<close> line
  of the same call: the line is the f-string of the value returned, the value
  returned is the only integer this line renders, and lines 11 and 12 print and
  return the same \<open>total\<close> from any state.
\<close>

theorem return_agrees_with_final_line:
  "last (output_lines out0) = ''Final total: '' @ str_int (fst (main out0))
    \<and> {t. last (output_lines out0) = ''Final total: '' @ str_int t} = {fst (main out0)}
    \<and> snd (finish s) = stdout s @ ''Final total: '' @ str_int (fst (finish s)) @ [newline]"
proof -
  have line: "last (output_lines out0) = ''Final total: '' @ str_int (fst (main out0))"
    by (simp add: output_lines_eq main_fst str_int_values)
  have "{t. ''Final total: '' @ str_int (fst (main out0)) = ''Final total: '' @ str_int t}
      = {fst (main out0)}"
    by (auto dest: str_int_inj)
  with line show ?thesis
    by (simp add: finish_def print_def f_final_def)
qed

text \<open>
  C7. Two calls of \<open>main\<close>, on consoles holding \<open>a\<close> and \<open>b\<close>, return the same
  value and write the same text, line for line; a second call right after the first
  returns the same value again and adds the same text again.
\<close>

theorem main_deterministic:
  "fst (main a) = fst (main b)
    \<and> written a (snd (main a)) = written b (snd (main b))
    \<and> output_lines a = output_lines b
    \<and> main (snd (main a)) = (fst (main a), snd (main a) @ written a (snd (main a)))"
proof -
  have "snd (main (snd (main a))) = snd (main a) @ written a (snd (main a))"
    unfolding main_written by (rule main_console_text)
  moreover have "fst (main (snd (main a))) = fst (main a)"
    by (simp add: main_fst)
  ultimately have "main (snd (main a)) = (fst (main a), snd (main a) @ written a (snd (main a)))"
    by (simp add: prod_eq_iff)
  then show ?thesis
    by (simp add: main_fst main_written output_lines_eq)
qed




text \<open>
  C9. The loop runs its body exactly ten times, at \<open>0, 1, ..., 9\<close> in this order:
  a body that also logs its index leaves this log and the same state. \<open>main\<close> is
  the ten bodies in a row from the first state, with nothing left out, and then the
  summary line after all that the loop printed.
\<close>

theorem loop_runs_ten_times_in_order:
  "for_range 0 10 (\<lambda>i (log, s). (log @ [i], loop_body i s)) ([], initial out0)
      = ([0, 1, 2, 3, 4, 5, 6, 7, 8, 9], for_range 0 10 loop_body (initial out0))
    \<and> main out0 = finish (loop_body 9 (loop_body 8 (loop_body 7 (loop_body 6 (loop_body 5
        (loop_body 4 (loop_body 3 (loop_body 2 (loop_body 1 (loop_body 0
          (initial out0)))))))))))
    \<and> snd (main out0)
        = stdout (for_range 0 10 loop_body (initial out0)) @ ''Final total: 90'' @ [newline]"
proof -
  have "var_total (for_range 0 10 loop_body (initial out0)) = 90"
    using for_range_total_initial [of 10 out0] by simp
  then have "snd (main out0)
        = stdout (for_range 0 10 loop_body (initial out0)) @ ''Final total: 90'' @ [newline]"
    by (simp add: main_def finish_def print_def f_final_def str_int_values)
  moreover have "main out0 = finish (loop_body 9 (loop_body 8 (loop_body 7 (loop_body 6
        (loop_body 5 (loop_body 4 (loop_body 3 (loop_body 2 (loop_body 1 (loop_body 0
          (initial out0)))))))))))"
    by (simp add: main_def for_range_unroll_10)
  moreover have "for_range 0 10 (\<lambda>i (log, s). (log @ [i], loop_body i s)) ([], initial out0)
      = ([0, 1, 2, 3, 4, 5, 6, 7, 8, 9], for_range 0 10 loop_body (initial out0))"
    by (simp add: for_range_unroll_10)
  ultimately show ?thesis
    by blast
qed

text \<open>
  C10. The accumulator never decreases and is never negative: \<open>total\<close> starts at
  0, the iteration at index \<open>k\<close>, for \<open>0 \<le> k \<le> 9\<close>, adds \<open>k * 2 \<ge> 0\<close> to it, so
  \<open>total\<close> after the iteration is at least \<open>total\<close> before it, and both are at
  least 0.
\<close>

theorem total_monotone_nonnegative:
  assumes "0 \<le> k" and "k \<le> 9"
  shows "var_total (initial out0) = 0
    \<and> for_range 0 (k + 1) loop_body (initial out0)
        = loop_body k (for_range 0 k loop_body (initial out0))
    \<and> 0 \<le> k * 2
    \<and> var_total (loop_body k s) = var_total s + k * 2
    \<and> var_total (for_range 0 k loop_body (initial out0))
        \<le> var_total (for_range 0 (k + 1) loop_body (initial out0))
    \<and> 0 \<le> var_total (for_range 0 k loop_body (initial out0))
    \<and> 0 \<le> var_total (for_range 0 (k + 1) loop_body (initial out0))"
proof -
  have before: "var_total (for_range 0 k loop_body (initial out0)) = k * (k - 1)"
    using assms by (simp add: for_range_total_initial)
  have after: "var_total (for_range 0 (k + 1) loop_body (initial out0)) = k * (k - 1) + k * 2"
    using assms by (simp add: for_range_step loop_body_fields before)
  have "0 \<le> k * (k - 1)"
  proof (cases "k = 0")
    case True
    then show ?thesis by simp
  next
    case False
    with assms have "0 \<le> k - 1" by simp
    with assms show ?thesis by (intro mult_nonneg_nonneg)
  qed
  with assms show ?thesis
    unfolding before after by (simp add: for_range_step loop_body_fields initial_def)
qed

theorem total_monotone_nonnegative_witness:
  "(0::int) \<le> 4 \<and> (4::int) \<le> 9
    \<and> var_total (for_range 0 4 loop_body (initial [])) = 12
    \<and> var_total (for_range 0 (4 + 1) loop_body (initial [])) = 20
    \<and> var_total (for_range 0 4 loop_body (initial []))
        \<le> var_total (for_range 0 (4 + 1) loop_body (initial []))
    \<and> 0 \<le> var_total (for_range 0 4 loop_body (initial []))"
  using total_monotone_nonnegative [of 4 "[]"]
  by (simp add: for_range_total_initial)

end
